theory Spec2Isabelle
  imports Main "HOL-Library.AList"
begin

section \<open>Python values and exceptions\<close>

text \<open>
  The module \<^verbatim>\<open>toolbox_az/general/flags.py\<close> wraps \<^verbatim>\<open>argparse.ArgumentParser\<close>.
  Its functions raise and catch Python exceptions, test values for truthiness and pass
  whatever a decoder returned to \<^verbatim>\<open>dict.update\<close>. The model therefore carries a small
  universe of Python values and the exception classes the module names or meets.

  An exception is modelled by its class. A subclass that an \<^verbatim>\<open>except\<close> clause of the
  module treats like its base class is folded into the base class (a \<^verbatim>\<open>UnicodeDecodeError\<close>
  is a \<open>ValueError\<close>); \<open>FileNotFoundError\<close> is kept apart from \<open>OSError\<close> because it is
  what \<^verbatim>\<open>open\<close> raises on a missing path, and \<open>is_OSError\<close> says that it is caught
  by \<^verbatim>\<open>except OSError\<close>. \<open>OtherError\<close> stands for any class that no handler of the
  module catches (for instance \<^verbatim>\<open>yaml.parser.ParserError\<close>).
\<close>

datatype exc =
    IndexError
  | KeyError
  | TypeError
  | ValueError
  | AttributeError
  | UnpicklingError
  | ScannerError
  | EOFError
  | FileNotFoundError
  | OSError
  | RecursionError
  | SystemExit
  | OtherError string

definition is_OSError :: "exc \<Rightarrow> bool" where
  "is_OSError e = (e = OSError \<or> e = FileNotFoundError)"

text \<open>
  Values: \<open>None\<close>, booleans, integers, strings, lists, dicts (insertion-ordered association
  lists), \<^verbatim>\<open>argparse.Namespace\<close> objects. \<open>PThisNamespace\<close> is a reference to the
  namespace object that contains it; it only arises from the attribute hook of the resolver
  (see \<open>setattr_args\<close>). Floats, tuples, sets and user classes are not part of the universe.
  Dict keys are compared by HOL equality; Python identifies the keys \<open>1\<close> and \<open>True\<close>,
  which concerns only dicts with non-string keys.
\<close>

datatype pyval =
    PNone
  | PBool bool
  | PInt int
  | PStr string
  | PList "pyval list"
  | PDict "(pyval \<times> pyval) list"
  | PNamespace "(string \<times> pyval) list"
  | PThisNamespace

type_synonym pydict = "(pyval \<times> pyval) list"
type_synonym namespace = "(string \<times> pyval) list"

text \<open>Python truthiness (\<^verbatim>\<open>if x:\<close>); \<open>Namespace\<close> defines neither \<^verbatim>\<open>__bool__\<close> nor
  \<^verbatim>\<open>__len__\<close>, so every namespace object is truthy, an empty one too.\<close>

fun truthy :: "pyval \<Rightarrow> bool" where
  "truthy PNone = False"
| "truthy (PBool b) = b"
| "truthy (PInt i) = (i \<noteq> 0)"
| "truthy (PStr s) = (s \<noteq> [])"
| "truthy (PList xs) = (xs \<noteq> [])"
| "truthy (PDict kvs) = (kvs \<noteq> [])"
| "truthy (PNamespace kvs) = True"
| "truthy PThisNamespace = True"

fun is_dict :: "pyval \<Rightarrow> bool" where
  "is_dict (PDict kvs) = True"
| "is_dict v = False"

fun is_namespace :: "pyval \<Rightarrow> bool" where
  "is_namespace (PNamespace kvs) = True"
| "is_namespace v = False"

fun hashable :: "pyval \<Rightarrow> bool" where
  "hashable (PList xs) = False"
| "hashable (PDict kvs) = False"
| "hashable (PNamespace kvs) = False"
| "hashable PThisNamespace = False"
| "hashable v = True"

subsection \<open>\<^verbatim>\<open>dict.update\<close>\<close>

text \<open>
  \<^verbatim>\<open>d.update(x)\<close> merges a dict key by key (a key already present keeps its position, a new
  key is appended). Any other argument is iterated as a sequence of two-element sequences:
  an argument that is not iterable raises \<open>TypeError\<close>, an element that is not iterable
  raises \<open>TypeError\<close>, an element of another length raises \<open>ValueError\<close>, an unhashable key
  raises \<open>TypeError\<close>; the pairs before the failing element stay in the dict. The result is
  the exception raised, if any, and the dict as the call leaves it.
\<close>

fun as_pair :: "pyval \<Rightarrow> exc + (pyval \<times> pyval)" where
  "as_pair (PList [k, v]) = Inr (k, v)"
| "as_pair (PList xs) = Inl ValueError"
| "as_pair (PStr [a, b]) = Inr (PStr [a], PStr [b])"
| "as_pair (PStr s) = Inl ValueError"
| "as_pair (PDict [(k1, v1), (k2, v2)]) = Inr (k1, k2)"
| "as_pair (PDict kvs) = Inl ValueError"
| "as_pair v = Inl TypeError"

fun update_pairs :: "pydict \<Rightarrow> pyval list \<Rightarrow> exc option \<times> pydict" where
  "update_pairs d [] = (None, d)"
| "update_pairs d (x # xs) =
     (case as_pair x of
        Inl e \<Rightarrow> (Some e, d)
      | Inr (k, v) \<Rightarrow>
          if hashable k then update_pairs (AList.update k v d) xs else (Some TypeError, d))"

definition merge_dict :: "pydict \<Rightarrow> pydict \<Rightarrow> pydict" where
  "merge_dict d kvs = fold (\<lambda>(k, v). AList.update k v) kvs d"

fun dict_update :: "pydict \<Rightarrow> pyval \<Rightarrow> exc option \<times> pydict" where
  "dict_update d (PDict kvs) = (None, merge_dict d kvs)"
| "dict_update d (PList xs) = update_pairs d xs"
| "dict_update d (PStr s) = update_pairs d (map (\<lambda>c. PStr [c]) s)"
| "dict_update d v = (Some TypeError, d)"

text \<open>\<^verbatim>\<open>Namespace(**d)\<close>: keyword names must be strings, and the name \<^verbatim>\<open>self\<close> collides with
  the first parameter of \<^verbatim>\<open>Namespace.__init__\<close>; either way the call raises \<open>TypeError\<close>.\<close>

fun kwargs :: "pydict \<Rightarrow> namespace option" where
  "kwargs [] = Some []"
| "kwargs ((PStr k, v) # kvs) =
     (if k = ''self'' then None
      else (case kwargs kvs of None \<Rightarrow> None | Some ns \<Rightarrow> Some ((k, v) # ns)))"
| "kwargs (kv # kvs) = None"

definition Namespace :: "pydict \<Rightarrow> exc + namespace" where
  "Namespace d = (case kwargs d of None \<Rightarrow> Inl TypeError | Some ns \<Rightarrow> Inr ns)"

section \<open>The world outside the module\<close>

text \<open>
  A declared parameter, as \<^verbatim>\<open>add_argument\<close> of the library records it: the attribute name
  \<open>dest\<close>, the flags \<open>option_strings\<close> (none for a positional parameter), \<open>nargs\<close>, the
  default, the \<^verbatim>\<open>type\<close> conversion (\<open>None\<close> when the conversion rejects the token) and
  whether the flag is required. The default is the value the library resolves for an absent
  flag (the library passes a string default through \<open>conv\<close> first; a declaration here holds
  the default after that step). What the library does with the tokens of a parameter
  (store, count, append, a positional's default) is not fixed here: it is the parameter
  \<open>parse_tokens\<close> of the world below.
\<close>

record action =
  dest :: string
  option_strings :: "string list"
  nargs :: "string option"
  default :: pyval
  conv :: "string \<Rightarrow> pyval option"
  required :: bool

text \<open>
  What the module reads from outside itself is a parameter of every function:
  \<^item> \<open>fopen\<close>: \<^verbatim>\<open>open(path)\<close> followed by reading the file, the text of the file or the
    exception \<^verbatim>\<open>open\<close> raises (text is a list of characters with code points below 256;
    the binary and the text mode of \<^verbatim>\<open>open\<close> are not distinguished);
  \<^item> \<open>pickle_load\<close>, \<open>yaml_load\<close>, \<open>json_decode\<close>: the three library decoders applied to the
    content of a file, a value or the exception the decoder raises (\<open>yaml_load\<close> is
    \<^verbatim>\<open>yaml.load\<close> called with the stream alone, as the module calls it);
  \<^item> \<open>argv\<close>: \<^verbatim>\<open>sys.argv[1:]\<close>;
  \<^item> \<open>parse_tokens\<close>: what \<^verbatim>\<open>ArgumentParser\<close> does with the tokens once file references
    have been expanded: for the declared parameters, a token list and the namespace that
    already holds the defaults, either the exception raised (\<open>SystemExit\<close> from
    \<^verbatim>\<open>self.error\<close> on an unknown token, a missing value, a missing required flag, a rejected
    value) or the namespace after every action has run. The result may depend on the
    namespace it is given (a \<^verbatim>\<open>count\<close> or \<^verbatim>\<open>append\<close> action reads it) and may overwrite an
    entry without a token (a positional with \<^verbatim>\<open>nargs='?'\<close> stores its default);
  \<^item> \<open>recursion_limit\<close>: how many text files may be nested before the interpreter raises
    \<open>RecursionError\<close>.
\<close>

record env =
  fopen :: "string \<Rightarrow> exc + string"
  pickle_load :: "string \<Rightarrow> exc + pyval"
  yaml_load :: "string \<Rightarrow> exc + pyval"
  json_decode :: "string \<Rightarrow> exc + pyval"
  argv :: "string list"
  parse_tokens :: "action list \<Rightarrow> string list \<Rightarrow> namespace \<Rightarrow> exc + namespace"
  recursion_limit :: nat

section \<open>The decoders: \<^verbatim>\<open>try_pickle_parse\<close>, \<^verbatim>\<open>try_yml_parse\<close>, \<^verbatim>\<open>try_json_parse\<close>, \<^verbatim>\<open>process_dict\<close>\<close>

text \<open>
  \<^verbatim>\<open>
  def try_pickle_parse(file_path):
      try:
          with open(file_path, 'rb') as pickle_file:
              parsed_dict = pickle.load(pickle_file)
      except (ValueError, TypeError, pickle.UnpicklingError):
          return None
      return parsed_dict
  \<close>
  Both \<^verbatim>\<open>open\<close> and \<^verbatim>\<open>pickle.load\<close> stand inside the \<^verbatim>\<open>try\<close>; an exception of another
  class leaves the function.
\<close>

definition pickle_caught :: "exc \<Rightarrow> bool" where
  "pickle_caught e = (e = ValueError \<or> e = TypeError \<or> e = UnpicklingError)"

definition try_pickle_parse :: "env \<Rightarrow> string \<Rightarrow> exc + pyval" where
  "try_pickle_parse env file_path =
     (case fopen env file_path of
        Inl e \<Rightarrow> if pickle_caught e then Inr PNone else Inl e
      | Inr content \<Rightarrow>
          (case pickle_load env content of
             Inl e \<Rightarrow> if pickle_caught e then Inr PNone else Inl e
           | Inr parsed_dict \<Rightarrow> Inr parsed_dict))"

text \<open>
  \<^verbatim>\<open>
  def try_yml_parse(file_path):
      try:
          with open(file_path, 'rb') as yaml_file:
              parsed_dict = yaml.load(yaml_file)
              if not isinstance(parsed_dict, dict):
                  return None
      except (ValueError, TypeError, yaml.scanner.ScannerError):
          return None
      return parsed_dict
  \<close>
\<close>

definition yaml_caught :: "exc \<Rightarrow> bool" where
  "yaml_caught e = (e = ValueError \<or> e = TypeError \<or> e = ScannerError)"

definition try_yml_parse :: "env \<Rightarrow> string \<Rightarrow> exc + pyval" where
  "try_yml_parse env file_path =
     (case fopen env file_path of
        Inl e \<Rightarrow> if yaml_caught e then Inr PNone else Inl e
      | Inr content \<Rightarrow>
          (case yaml_load env content of
             Inl e \<Rightarrow> if yaml_caught e then Inr PNone else Inl e
           | Inr parsed_dict \<Rightarrow> if is_dict parsed_dict then Inr parsed_dict else Inr PNone))"

text \<open>
  \<^verbatim>\<open>
  def try_json_parse(file_path):
      try:
          with open(file_path, 'r') as json_file:
              parsed_dict = json.loads(json_file)
      except (ValueError, TypeError):
          return None
      return parsed_dict
  \<close>
  The source hands the open file object to \<^verbatim>\<open>json.loads\<close>, which decodes a string and
  raises \<open>TypeError\<close> on anything else; \<open>json_source\<close> says what \<^verbatim>\<open>json.loads\<close> is given.
\<close>

datatype json_source = JsonText string | JsonFileObject string

fun json_loads :: "env \<Rightarrow> json_source \<Rightarrow> exc + pyval" where
  "json_loads env (JsonText s) = json_decode env s"
| "json_loads env (JsonFileObject content) = Inl TypeError"

definition json_caught :: "exc \<Rightarrow> bool" where
  "json_caught e = (e = ValueError \<or> e = TypeError)"

definition try_json_parse :: "env \<Rightarrow> string \<Rightarrow> exc + pyval" where
  "try_json_parse env file_path =
     (case fopen env file_path of
        Inl e \<Rightarrow> if json_caught e then Inr PNone else Inl e
      | Inr content \<Rightarrow>
          (case json_loads env (JsonFileObject content) of
             Inl e \<Rightarrow> if json_caught e then Inr PNone else Inl e
           | Inr parsed_dict \<Rightarrow> Inr parsed_dict))"

text \<open>
  \<^verbatim>\<open>
  def process_dict(dict_path):
      parsed_dict = try_pickle_parse(dict_path)
      if not parsed_dict:
          parsed_dict = try_yml_parse(dict_path)
      if not parsed_dict:
          parsed_dict = try_json_parse(dict_path)
      return parsed_dict
  \<close>
\<close>

definition process_dict :: "env \<Rightarrow> string \<Rightarrow> exc + pyval" where
  "process_dict env dict_path =
     (case try_pickle_parse env dict_path of
        Inl e \<Rightarrow> Inl e
      | Inr p1 \<Rightarrow>
          if truthy p1 then Inr p1
          else (case try_yml_parse env dict_path of
                  Inl e \<Rightarrow> Inl e
                | Inr p2 \<Rightarrow> if truthy p2 then Inr p2 else try_json_parse env dict_path))"

section \<open>The resolver: \<^verbatim>\<open>MyArguments\<close>\<close>

text \<open>
  The attributes of a \<^verbatim>\<open>MyArguments\<close> object the module reads or writes. \<open>actions\<close> is
  the list of declared parameters the inherited \<^verbatim>\<open>add_argument\<close> keeps.
\<close>

record my_arguments =
  args :: "namespace option"
  is_jupyter_notebook :: bool
  fromfile_prefix_chars :: "string list"
  config_files_data :: pydict
  actions :: "action list"

text \<open>\<^verbatim>\<open>"jupyter" in arg.lower()\<close>: lower-casing of the ASCII letters decides the test, since no
  other character lower-cases to a letter of the word.\<close>

definition lower_char :: "char \<Rightarrow> char" where
  "lower_char c =
     (if (65::nat) \<le> of_char c \<and> of_char c \<le> (90::nat) then char_of (of_char c + (32::nat)) else c)"

definition lower :: "string \<Rightarrow> string" where
  "lower s = map lower_char s"

fun str_contains :: "string \<Rightarrow> string \<Rightarrow> bool" where
  "str_contains sub [] = (sub = [])"
| "str_contains sub (c # cs) = (take (length sub) (c # cs) = sub \<or> str_contains sub cs)"

text \<open>
  \<^verbatim>\<open>
  def __init__(self, fromfile_prefix_chars=None):
      if fromfile_prefix_chars is None:
          fromfile_prefix_chars = ["@"]
      self.args = None
      ArgumentParser.__init__(self, fromfile_prefix_chars=fromfile_prefix_chars)
      self.is_jupyter_notebook = any(["jupyter" in arg.lower() for arg in sys.argv[1:]])
      self.fromfile_prefix_chars = fromfile_prefix_chars
      self.config_files_data = {}
  \<close>
\<close>

definition MyArguments_init :: "env \<Rightarrow> string list option \<Rightarrow> my_arguments" where
  "MyArguments_init env chars =
     \<lparr> args = None,
       is_jupyter_notebook = list_ex (\<lambda>arg. str_contains ''jupyter'' (lower arg)) (argv env),
       fromfile_prefix_chars = (case chars of None \<Rightarrow> [''@''] | Some cs \<Rightarrow> cs),
       config_files_data = [],
       actions = [] \<rparr>"

text \<open>The inherited \<^verbatim>\<open>add_argument\<close> appends the declaration.\<close>

definition add_argument :: "my_arguments \<Rightarrow> action \<Rightarrow> my_arguments" where
  "add_argument s a = s\<lparr>actions := actions s @ [a]\<rparr>"

subsection \<open>Expanding file references\<close>

text \<open>\<^verbatim>\<open>str.splitlines\<close>: a line ends at a line boundary; the last line needs none.\<close>

definition is_linebreak :: "char \<Rightarrow> bool" where
  "is_linebreak c = (of_char c \<in> {10::nat, 11, 12, 13, 28, 29, 30, 133})"

fun splitlines_from :: "string \<Rightarrow> string \<Rightarrow> string list" where
  "splitlines_from cur [] = (if cur = [] then [] else [cur])"
| "splitlines_from cur [c] = (if is_linebreak c then [cur] else [cur @ [c]])"
| "splitlines_from cur (c # d # cs) =
     (if of_char c = (13::nat) \<and> of_char d = (10::nat) then cur # splitlines_from [] cs
      else if is_linebreak c then cur # splitlines_from [] (d # cs)
      else splitlines_from (cur @ [c]) (d # cs))"

definition splitlines :: "string \<Rightarrow> string list" where
  "splitlines s = splitlines_from [] s"

text \<open>\<^verbatim>\<open>convert_arg_line_to_args\<close> is inherited unchanged: one token per line.\<close>

definition convert_arg_line_to_args :: "string \<Rightarrow> string list" where
  "convert_arg_line_to_args arg_line = [arg_line]"

text \<open>
  \<^verbatim>\<open>
  def _read_args_from_files(self, arg_strings):
      new_arg_strings = []
      for arg_string in arg_strings:
          if not arg_string or arg_string[0] not in self.fromfile_prefix_chars:
              new_arg_strings.append(arg_string)
          else:
              config_file_path = arg_string[1:]
              config_file_args = process_dict(dict_path=config_file_path)
              if config_file_args:
                  self.config_files_data.update(config_file_args)
              else:
                  self._expand_arg_strings_from_file(
                      config_file_path=config_file_path, new_arg_strings=new_arg_strings)
      return new_arg_strings

  def _expand_arg_strings_from_file(self, config_file_path, new_arg_strings):
      with open(config_file_path) as config_file:
          try:
              arg_strings = []
              for arg_line in config_file.read().splitlines():
                  for arg in self.convert_arg_line_to_args(arg_line):
                      arg_strings.append(arg)
              arg_strings = self._read_args_from_files(arg_strings)
              new_arg_strings.extend(arg_strings)
          except OSError:
              err = sys.exc_info()[1]
              self.error(str(err))
  \<close>
  \<open>read_args_loop\<close> is the \<^verbatim>\<open>for\<close> loop with the local list \<open>new_arg_strings\<close>; the state
  returned with an exception is the object as the exception leaves it. The first argument
  counts the text files that may still be nested: the two methods call each other, and a
  file that names itself recurses until the interpreter raises \<open>RecursionError\<close>.
  \<^verbatim>\<open>self.error\<close> prints the message and exits (\<open>SystemExit\<close>).
\<close>

fun read_args_loop ::
    "nat \<Rightarrow> env \<Rightarrow> my_arguments \<Rightarrow> string list \<Rightarrow> string list \<Rightarrow> (exc + string list) \<times> my_arguments"
  and expand_arg_strings_from_file ::
    "nat \<Rightarrow> env \<Rightarrow> my_arguments \<Rightarrow> string \<Rightarrow> string list \<Rightarrow> (exc + string list) \<times> my_arguments"
where
  "read_args_loop n env s [] new_arg_strings = (Inr new_arg_strings, s)"
| "read_args_loop n env s (arg_string # rest) new_arg_strings =
     (if arg_string \<noteq> [] \<and> [hd arg_string] \<in> set (fromfile_prefix_chars s) then
        (case process_dict env (tl arg_string) of
           Inl e \<Rightarrow> (Inl e, s)
         | Inr config_file_args \<Rightarrow>
             if truthy config_file_args then
               (case dict_update (config_files_data s) config_file_args of
                  (Some e, d) \<Rightarrow> (Inl e, s\<lparr>config_files_data := d\<rparr>)
                | (None, d) \<Rightarrow> read_args_loop n env (s\<lparr>config_files_data := d\<rparr>) rest new_arg_strings)
             else
               (case expand_arg_strings_from_file n env s (tl arg_string) new_arg_strings of
                  (Inl e, s1) \<Rightarrow> (Inl e, s1)
                | (Inr new1, s1) \<Rightarrow> read_args_loop n env s1 rest new1))
      else read_args_loop n env s rest (new_arg_strings @ [arg_string]))"
| "expand_arg_strings_from_file 0 env s config_file_path new_arg_strings = (Inl RecursionError, s)"
| "expand_arg_strings_from_file (Suc n) env s config_file_path new_arg_strings =
     (case fopen env config_file_path of
        Inl e \<Rightarrow> (Inl e, s)
      | Inr content \<Rightarrow>
          (case read_args_loop n env s
                  (concat (map convert_arg_line_to_args (splitlines content))) [] of
             (Inl e, s1) \<Rightarrow> if is_OSError e then (Inl SystemExit, s1) else (Inl e, s1)
           | (Inr arg_strings, s1) \<Rightarrow> (Inr (new_arg_strings @ arg_strings), s1)))"

definition read_args_from_files ::
    "nat \<Rightarrow> env \<Rightarrow> my_arguments \<Rightarrow> string list \<Rightarrow> (exc + string list) \<times> my_arguments" where
  "read_args_from_files n env s arg_strings = read_args_loop n env s arg_strings []"

subsection \<open>The inherited \<^verbatim>\<open>ArgumentParser.parse_args\<close>\<close>

text \<open>
  The library method the module calls twice. It takes the namespace it is given (a new
  empty one for \<open>None\<close>), gives every declared parameter that the namespace lacks its
  default, expands file references through the overridden \<^verbatim>\<open>_read_args_from_files\<close>,
  and hands the expanded tokens and the namespace to the actions (\<open>parse_tokens\<close>).
\<close>

fun add_defaults :: "action list \<Rightarrow> namespace \<Rightarrow> namespace" where
  "add_defaults [] ns = ns"
| "add_defaults (a # as) ns =
     add_defaults as (if map_of ns (dest a) = None then ns @ [(dest a, default a)] else ns)"

definition ArgumentParser_parse_args ::
    "env \<Rightarrow> my_arguments \<Rightarrow> string list \<Rightarrow> namespace option \<Rightarrow> (exc + namespace) \<times> my_arguments" where
  "ArgumentParser_parse_args env s arg_strings namespace_opt =
     (let ns0 = add_defaults (actions s) (case namespace_opt of None \<Rightarrow> [] | Some ns \<Rightarrow> ns) in
      case read_args_from_files (recursion_limit env) env s arg_strings of
        (Inl e, s1) \<Rightarrow> (Inl e, s1)
      | (Inr tokens, s1) \<Rightarrow>
          (case parse_tokens env (actions s1) tokens ns0 of
             Inl e \<Rightarrow> (Inl e, s1)
           | Inr ns \<Rightarrow> (Inr ns, s1)))"

subsection \<open>\<^verbatim>\<open>process_default_namespace\<close> and \<^verbatim>\<open>parse_args\<close>\<close>

text \<open>
  \<^verbatim>\<open>
  def process_default_namespace(self, namespace_or_dict_args):
      if namespace_or_dict_args:
          if isinstance(namespace_or_dict_args, Namespace):
              self.config_files_data.update(namespace_or_dict_args._get_kwarg)
          elif isinstance(namespace_or_dict_args, dict):
              self.config_files_data.update(namespace_or_dict_args)
          else:
              raise TypeError(...)
      if self.config_files_data:
          return Namespace(**self.config_files_data)
      return None
  \<close>
  A \<^verbatim>\<open>Namespace\<close> has the method \<^verbatim>\<open>_get_kwargs\<close>; it has an attribute \<^verbatim>\<open>_get_kwarg\<close> only
  when one of its own pairs has that name. Without such a pair, evaluating the argument of
  \<^verbatim>\<open>update\<close> raises \<open>AttributeError\<close> before \<^verbatim>\<open>update\<close> is called; with one, the value of
  the pair is what \<^verbatim>\<open>update\<close> is given.
  \<open>update_from_overrides\<close> is the first statement of the method (the outer \<^verbatim>\<open>if\<close>): the
  exception it raises, if any, and the object as it leaves it.
\<close>

definition update_from_overrides ::
    "my_arguments \<Rightarrow> pyval \<Rightarrow> exc option \<times> my_arguments" where
  "update_from_overrides s namespace_or_dict_args =
     (if truthy namespace_or_dict_args then
        (case namespace_or_dict_args of
           PNamespace kw \<Rightarrow>
             (case map_of kw ''_get_kwarg'' of
                None \<Rightarrow> (Some AttributeError, s)
              | Some v \<Rightarrow>
                  (case dict_update (config_files_data s) v of
                     (err, d) \<Rightarrow> (err, s\<lparr>config_files_data := d\<rparr>)))
         | PDict kvs \<Rightarrow>
             (case dict_update (config_files_data s) (PDict kvs) of
                (err, d) \<Rightarrow> (err, s\<lparr>config_files_data := d\<rparr>))
         | _ \<Rightarrow> (Some TypeError, s))
      else (None, s))"

definition process_default_namespace ::
    "my_arguments \<Rightarrow> pyval \<Rightarrow> (exc + namespace option) \<times> my_arguments" where
  "process_default_namespace s namespace_or_dict_args =
     (case update_from_overrides s namespace_or_dict_args of
        (Some e, s1) \<Rightarrow> (Inl e, s1)
      | (None, s1) \<Rightarrow>
          if config_files_data s1 \<noteq> [] then
            (case Namespace (config_files_data s1) of
               Inl e \<Rightarrow> (Inl e, s1)
             | Inr ns \<Rightarrow> (Inr (Some ns), s1))
          else (Inr None, s1))"

text \<open>
  \<^verbatim>\<open>
  def __setattr__(self, name, value):
      super(MyArguments, self).__setattr__(name, value)
      if self.args is not None and name in self.args.__dict__:
          self.args.__dict__[name] = value
  \<close>
  at the assignment \<^verbatim>\<open>self.args = ...\<close> that ends \<^verbatim>\<open>parse_args\<close>: the namespace just
  stored is not \<open>None\<close>; when it has an entry named \<^verbatim>\<open>args\<close>, that entry is overwritten
  with the namespace object itself.
\<close>

definition setattr_args :: "my_arguments \<Rightarrow> namespace \<Rightarrow> my_arguments" where
  "setattr_args s ns =
     (if map_of ns ''args'' \<noteq> None then s\<lparr>args := Some (AList.update ''args'' PThisNamespace ns)\<rparr>
      else s\<lparr>args := Some ns\<rparr>)"

text \<open>
  \<^verbatim>\<open>
  def parse_args(self, args=None, namespace_or_dict_args=None):
      if args is None:
          if self.is_jupyter_notebook:
              args = []
          else:
              args = sys.argv[1:]
      config_files_args = [arg for arg in args if arg[0] in self.fromfile_prefix_chars]
      other_args = [arg for arg in args if arg[0] not in self.fromfile_prefix_chars]
      for config_file in config_files_args:
          ArgumentParser.parse_args(self, args=[config_file])
      default_namespace = self.process_default_namespace(namespace_or_dict_args)
      self.args = ArgumentParser.parse_args(self, args=other_args, namespace=default_namespace)
      return self.args
  \<close>
  \<open>initial_args\<close> is the token list after the first statement (\<^verbatim>\<open>if args is None:\<close>).
  \<^verbatim>\<open>arg[0]\<close> raises \<open>IndexError\<close> on an empty token, in the first comprehension.
\<close>

definition is_config_file_arg :: "my_arguments \<Rightarrow> string \<Rightarrow> bool" where
  "is_config_file_arg s arg = ([hd arg] \<in> set (fromfile_prefix_chars s))"

fun parse_config_files ::
    "env \<Rightarrow> my_arguments \<Rightarrow> string list \<Rightarrow> (exc + unit) \<times> my_arguments" where
  "parse_config_files env s [] = (Inr (), s)"
| "parse_config_files env s (config_file # rest) =
     (case ArgumentParser_parse_args env s [config_file] None of
        (Inl e, s1) \<Rightarrow> (Inl e, s1)
      | (Inr discarded, s1) \<Rightarrow> parse_config_files env s1 rest)"

definition initial_args :: "env \<Rightarrow> my_arguments \<Rightarrow> string list option \<Rightarrow> string list" where
  "initial_args env s args_opt =
     (case args_opt of
        None \<Rightarrow> if is_jupyter_notebook s then [] else argv env
      | Some a \<Rightarrow> a)"

definition parse_args ::
    "env \<Rightarrow> my_arguments \<Rightarrow> string list option \<Rightarrow> pyval \<Rightarrow> (exc + namespace) \<times> my_arguments" where
  "parse_args env s args_opt namespace_or_dict_args =
     (let arg_list = initial_args env s args_opt in
      if [] \<in> set arg_list then (Inl IndexError, s)
      else
        (case parse_config_files env s (filter (is_config_file_arg s) arg_list) of
           (Inl e, s1) \<Rightarrow> (Inl e, s1)
         | (Inr u, s1) \<Rightarrow>
             (case process_default_namespace s1 namespace_or_dict_args of
                (Inl e, s2) \<Rightarrow> (Inl e, s2)
              | (Inr default_namespace, s2) \<Rightarrow>
                  (case ArgumentParser_parse_args env s2
                          (filter (\<lambda>arg. \<not> is_config_file_arg s arg) arg_list) default_namespace of
                     (Inl e, s3) \<Rightarrow> (Inl e, s3)
                   | (Inr ns, s3) \<Rightarrow>
                       (Inr (the (args (setattr_args s3 ns))), setattr_args s3 ns)))))"

text \<open>
  \<^verbatim>\<open>
  def __getattr__(self, name):
      if self.args is None:
          self.parse_args(args=None)
      return self.args.__dict__[name]
  \<close>
\<close>

definition getattr :: "env \<Rightarrow> my_arguments \<Rightarrow> string \<Rightarrow> (exc + pyval) \<times> my_arguments" where
  "getattr env s name =
     (case args s of
        Some ns \<Rightarrow>
          (case map_of ns name of None \<Rightarrow> (Inl KeyError, s) | Some v \<Rightarrow> (Inr v, s))
      | None \<Rightarrow>
          (case parse_args env s None PNone of
             (Inl e, s1) \<Rightarrow> (Inl e, s1)
           | (Inr ns, s1) \<Rightarrow>
               (case map_of ns name of None \<Rightarrow> (Inl KeyError, s1) | Some v \<Rightarrow> (Inr v, s1))))"

section \<open>The singleton: \<^verbatim>\<open>SingletonDecorator\<close> and \<^verbatim>\<open>Flags\<close>\<close>




section \<open>A concrete world for evaluation\<close>

text \<open>
  \<open>store_options\<close> reads a token list of the plain form \<^verbatim>\<open>--flag VALUE --flag VALUE ...\<close>
  against the declared flags, as the library does for flags with the \<^verbatim>\<open>store\<close> action: each
  pair stores the converted value under the flag's \<open>dest\<close>. A token in flag position that
  does not start with \<^verbatim>\<open>-\<close> is a positional the parser has no parameter for, a flag without
  a value or followed by another declared flag lacks its argument, a rejected value is an
  invalid argument: each ends in \<^verbatim>\<open>self.error\<close> (\<open>SystemExit\<close>). Any other token that starts
  with \<^verbatim>\<open>-\<close> (an abbreviated flag, \<^verbatim>\<open>--flag=VALUE\<close>, a negative number, \<^verbatim>\<open>--\<close>) is outside
  the plain form, and the function says so instead of guessing.
\<close>

definition outside_plain_form :: exc where
  "outside_plain_form = OtherError ''token outside the plain form''"

fun store_options :: "action list \<Rightarrow> string list \<Rightarrow> exc + (string \<times> pyval) list" where
  "store_options acts [] = Inr []"
| "store_options acts [flag] =
     (case find (\<lambda>a. flag \<in> set (option_strings a)) acts of
        None \<Rightarrow> if take 1 flag = ''-'' then Inl outside_plain_form else Inl SystemExit
      | Some a \<Rightarrow> Inl SystemExit)"
| "store_options acts (flag # token # rest) =
     (case find (\<lambda>a. flag \<in> set (option_strings a)) acts of
        None \<Rightarrow> if take 1 flag = ''-'' then Inl outside_plain_form else Inl SystemExit
      | Some a \<Rightarrow>
          if take 1 token = ''-'' then
            (if list_ex (\<lambda>b. token \<in> set (option_strings b)) acts then Inl SystemExit
             else Inl outside_plain_form)
          else (case conv a token of
                  None \<Rightarrow> Inl SystemExit
                | Some v \<Rightarrow>
                    (case store_options acts rest of
                       Inl e \<Rightarrow> Inl e
                     | Inr stores \<Rightarrow> Inr ((dest a, v) # stores))))"

definition apply_stores :: "(string \<times> pyval) list \<Rightarrow> namespace \<Rightarrow> namespace" where
  "apply_stores stores ns = fold (\<lambda>(k, v). AList.update k v) stores ns"

text \<open>
  \<open>sample_tokens\<close> is \<open>parse_tokens\<close> for a parser whose parameters are flags with the
  \<^verbatim>\<open>store\<close> action and positionals with \<^verbatim>\<open>nargs='?'\<close>: the flags store what \<open>store_options\<close>
  reads, a required flag that no token names ends in \<^verbatim>\<open>self.error\<close>, and on the empty token
  list every positional stores its default, also over an entry the namespace already has.
  A positional together with tokens, or with another \<^verbatim>\<open>nargs\<close>, is outside the form.
\<close>

definition is_positional :: "action \<Rightarrow> bool" where
  "is_positional a = (option_strings a = [])"

definition sample_tokens :: "action list \<Rightarrow> string list \<Rightarrow> namespace \<Rightarrow> exc + namespace" where
  "sample_tokens acts tokens ns =
     (if list_ex (\<lambda>a. is_positional a \<and> \<not> (tokens = [] \<and> nargs a = Some ''?'')) acts
      then Inl outside_plain_form
      else (case store_options acts tokens of
              Inl e \<Rightarrow> Inl e
            | Inr stores \<Rightarrow>
                if list_ex (\<lambda>a. required a \<and> set (option_strings a) \<inter> set tokens = {}
                                  \<and> \<not> is_positional a) acts
                then Inl SystemExit
                else Inr (fold (\<lambda>a. AList.update (dest a) (default a))
                            (filter is_positional acts) (apply_stores stores ns))))"

text \<open>
  Six files, and what the libraries do with their contents:
  \<^item> \<^verbatim>\<open>cfg.yaml\<close> holds \<^verbatim>\<open>mode: eval\<close> and \<^verbatim>\<open>cfg2.yaml\<close> holds \<^verbatim>\<open>mode: prod\<close>: \<^verbatim>\<open>m\<close> is no pickle
    opcode (\<open>UnpicklingError\<close>), the YAML documents are the mappings \<^verbatim>\<open>{'mode': 'eval'}\<close> and
    \<^verbatim>\<open>{'mode': 'prod'}\<close>;
  \<^item> \<^verbatim>\<open>args.txt\<close> holds the two lines \<^verbatim>\<open>--mode\<close> and \<^verbatim>\<open>test\<close>: \<^verbatim>\<open>-\<close> is no pickle opcode, the
    YAML document is the plain scalar \<^verbatim>\<open>'--mode test'\<close>;
  \<^item> \<^verbatim>\<open>empty.txt\<close> holds nothing: \<^verbatim>\<open>pickle.load\<close> raises \<^verbatim>\<open>EOFError: Ran out of input\<close>;
  \<^item> \<^verbatim>\<open>empty.yaml\<close> holds \<^verbatim>\<open>{}\<close>: \<^verbatim>\<open>{\<close> is no pickle opcode, the YAML document is the empty
    mapping;
  \<^item> \<^verbatim>\<open>two.yaml\<close> holds the two lines \<^verbatim>\<open>cfg: 1\<close> and \<^verbatim>\<open>mode: eval\<close>: \<^verbatim>\<open>c\<close> is the pickle opcode
    that imports the module named by the rest of the line, and \<^verbatim>\<open>pickle.load\<close> raises
    \<^verbatim>\<open>ModuleNotFoundError: No module named 'fg: 1'\<close>; the YAML document is the mapping
    \<^verbatim>\<open>{'cfg': 1, 'mode': 'eval'}\<close>.
  Every other path is missing: \<^verbatim>\<open>open\<close> raises \<open>FileNotFoundError\<close>.
\<close>

definition args_txt :: string where
  "args_txt = ''--mode'' @ [CHR 0x0A] @ ''test'' @ [CHR 0x0A]"

definition two_yaml :: string where
  "two_yaml = ''cfg: 1'' @ [CHR 0x0A] @ ''mode: eval'' @ [CHR 0x0A]"

definition demo_fopen :: "string \<Rightarrow> exc + string" where
  "demo_fopen path =
     (if path = ''cfg.yaml'' then Inr ''mode: eval''
      else if path = ''cfg2.yaml'' then Inr ''mode: prod''
      else if path = ''args.txt'' then Inr args_txt
      else if path = ''empty.txt'' then Inr []
      else if path = ''empty.yaml'' then Inr ''{}''
      else if path = ''two.yaml'' then Inr two_yaml
      else Inl FileNotFoundError)"

definition demo_pickle_load :: "string \<Rightarrow> exc + pyval" where
  "demo_pickle_load content =
     (if content = [] then Inl EOFError
      else if content = two_yaml then Inl (OtherError ''ModuleNotFoundError'')
      else Inl UnpicklingError)"

definition demo_yaml_load :: "string \<Rightarrow> exc + pyval" where
  "demo_yaml_load content =
     (if content = ''mode: eval'' then Inr (PDict [(PStr ''mode'', PStr ''eval'')])
      else if content = ''mode: prod'' then Inr (PDict [(PStr ''mode'', PStr ''prod'')])
      else if content = ''{}'' then Inr (PDict [])
      else if content = args_txt then Inr (PStr ''--mode test'')
      else if content = two_yaml
        then Inr (PDict [(PStr ''cfg'', PInt 1), (PStr ''mode'', PStr ''eval'')])
      else Inr PNone)"

definition demo_env :: env where
  "demo_env =
     \<lparr> fopen = demo_fopen,
       pickle_load = demo_pickle_load,
       yaml_load = demo_yaml_load,
       json_decode = (\<lambda>content. Inl ValueError),
       argv = [],
       parse_tokens = sample_tokens,
       recursion_limit = 1000 \<rparr>"

text \<open>A resolver with one declared parameter: \<^verbatim>\<open>add_argument('--mode', default='train')\<close>.\<close>

definition mode_action :: action where
  "mode_action =
     \<lparr> dest = ''mode'', option_strings = [''--mode''], nargs = None, default = PStr ''train'',
       conv = (\<lambda>token. Some (PStr token)), required = False \<rparr>"

definition demo_parser :: my_arguments where
  "demo_parser = add_argument (MyArguments_init demo_env None) mode_action"

text \<open>A resolver whose one parameter is named like the resolver's own attribute:
  \<^verbatim>\<open>add_argument('--args', default='x')\<close>.\<close>

definition args_action :: action where
  "args_action =
     \<lparr> dest = ''args'', option_strings = [''--args''], nargs = None, default = PStr ''x'',
       conv = (\<lambda>token. Some (PStr token)), required = False \<rparr>"

definition args_parser :: my_arguments where
  "args_parser = add_argument (MyArguments_init demo_env None) args_action"

text \<open>A resolver whose one parameter is a positional that may be left out:
  \<^verbatim>\<open>add_argument('inp', nargs='?', default='d')\<close>.\<close>

definition inp_action :: action where
  "inp_action =
     \<lparr> dest = ''inp'', option_strings = [], nargs = Some ''?'', default = PStr ''d'',
       conv = (\<lambda>token. Some (PStr token)), required = False \<rparr>"

definition inp_parser :: my_arguments where
  "inp_parser = add_argument (MyArguments_init demo_env None) inp_action"

section \<open>The layers of a resolution\<close>

text \<open>
  The precedence law in the words of the specification: the command-line value \<open>C\<close> if
  present, else the override value \<open>O\<close> if present, else the config-file value \<open>F\<close> if
  present, else the declared default \<open>D\<close>.
\<close>

definition precedence :: "pyval option \<Rightarrow> pyval option \<Rightarrow> pyval option \<Rightarrow> pyval \<Rightarrow> pyval" where
  "precedence cli ovr cfg dflt =
     (case cli of
        Some c \<Rightarrow> c
      | None \<Rightarrow> (case ovr of Some ov \<Rightarrow> ov | None \<Rightarrow> (case cfg of Some f \<Rightarrow> f | None \<Rightarrow> dflt)))"

text \<open>
  The layers of one call \<^verbatim>\<open>parse_args(args, overrides)\<close>, each stated from what the call is
  given and not from what the code computes.

  The command-line layer. \<open>stores_value\<close> says of a parameter and a token list that the
  library treats the parameter as a flag with the \<^verbatim>\<open>store\<close> action does: whatever namespace
  the tokens are parsed into, the entry of the parameter afterwards is the value \<open>c\<close> of the
  token (\<open>cli = Some c\<close>), or, when no token names the parameter (\<open>cli = None\<close>), the entry
  the namespace had.
\<close>

definition stores_value ::
    "env \<Rightarrow> action list \<Rightarrow> string list \<Rightarrow> string \<Rightarrow> pyval option \<Rightarrow> bool" where
  "stores_value env acts tokens name cli =
     (\<forall>ns0 ns1. parse_tokens env acts tokens ns0 = Inr ns1 \<longrightarrow>
        map_of ns1 name = (case cli of Some c \<Rightarrow> Some c | None \<Rightarrow> map_of ns0 name))"

text \<open>
  The override layer: the entry of the dict given as overrides (a later entry of the
  association list stands for a later insertion).
\<close>

definition override_value :: "pyval \<Rightarrow> string \<Rightarrow> pyval option" where
  "override_value namespace_or_dict_args name =
     (case namespace_or_dict_args of
        PDict kvs \<Rightarrow> map_of (rev kvs) (PStr name)
      | _ \<Rightarrow> None)"

text \<open>
  The config-file layer. A marker token names a mapping file when the file decodes to a
  non-empty mapping; \<open>files_mapping\<close> merges the mappings of the marker tokens of the call
  in the order of the tokens, a later file over an earlier one, starting from nothing.
\<close>

definition mapping_file :: "env \<Rightarrow> string \<Rightarrow> bool" where
  "mapping_file env path =
     (case process_dict env path of
        Inr (PDict kvs) \<Rightarrow> kvs \<noteq> []
      | _ \<Rightarrow> False)"

definition file_mapping :: "env \<Rightarrow> string \<Rightarrow> pydict" where
  "file_mapping env path =
     (case process_dict env path of
        Inr (PDict kvs) \<Rightarrow> kvs
      | _ \<Rightarrow> [])"

definition files_mapping :: "env \<Rightarrow> string list \<Rightarrow> pydict" where
  "files_mapping env marker_tokens =
     fold (\<lambda>token d. merge_dict d (file_mapping env (tl token))) marker_tokens []"

definition config_file_value :: "env \<Rightarrow> my_arguments \<Rightarrow> string list \<Rightarrow> string \<Rightarrow> pyval option" where
  "config_file_value env s arg_list name =
     map_of (files_mapping env (filter (is_config_file_arg s) arg_list)) (PStr name)"

text \<open>The layer below the files of the call: what earlier calls on the same resolver left
  in \<^verbatim>\<open>self.config_files_data\<close>.\<close>

definition accumulated_value :: "my_arguments \<Rightarrow> string \<Rightarrow> pyval option" where
  "accumulated_value s name = map_of (config_files_data s) (PStr name)"

definition config_layer :: "env \<Rightarrow> my_arguments \<Rightarrow> string list \<Rightarrow> string \<Rightarrow> pyval option" where
  "config_layer env s arg_list name =
     (case config_file_value env s arg_list name of
        Some f \<Rightarrow> Some f
      | None \<Rightarrow> accumulated_value s name)"

text \<open>The attributes of the object that file expansion never writes.\<close>

definition same_but_config :: "my_arguments \<Rightarrow> my_arguments \<Rightarrow> bool" where
  "same_but_config s s' =
     (args s' = args s \<and> is_jupyter_notebook s' = is_jupyter_notebook s \<and>
      fromfile_prefix_chars s' = fromfile_prefix_chars s \<and> actions s' = actions s)"

section \<open>What file expansion leaves alone\<close>

text \<open>
  Expanding file references writes \<^verbatim>\<open>self.config_files_data\<close> and nothing else; the cached
  result, the marker set and the declared parameters are the same afterwards, whether the
  expansion returns or raises.
\<close>

lemma same_but_config_refl: "same_but_config s s"
  by (simp add: same_but_config_def)

lemma same_but_config_trans:
  "same_but_config s s1 \<Longrightarrow> same_but_config s1 s2 \<Longrightarrow> same_but_config s s2"
  by (simp add: same_but_config_def)

lemma same_but_config_update: "same_but_config s (s\<lparr>config_files_data := d\<rparr>)"
  by (simp add: same_but_config_def)

lemma read_args_frame:
  "same_but_config s (snd (read_args_loop n env s arg_strings new))"
  "same_but_config s (snd (expand_arg_strings_from_file n env s path new))"
proof (induction n env s arg_strings new and n env s path new
       rule: read_args_loop_expand_arg_strings_from_file.induct)
  case (1 n env s new_arg_strings)
  then show ?case by (simp add: same_but_config_refl)
next
  case (2 n env s arg_string rest new_arg_strings)
  then show ?case 
    apply (simp add: same_but_config_refl split: sum.split prod.split option.split)
    apply (auto simp: same_but_config_def split: sum.splits prod.splits option.splits)
    done
next
  case (3 env s config_file_path new_arg_strings)
  then show ?case by (simp add: same_but_config_refl)
next
  case (4 n env s config_file_path new_arg_strings)
  then show ?case 
    by (auto simp: same_but_config_def split: sum.splits prod.splits)
qed

lemma read_args_loop_plain:
  "list_all (\<lambda>a. \<not> (a \<noteq> [] \<and> [hd a] \<in> set (fromfile_prefix_chars s))) arg_strings \<Longrightarrow>
   read_args_loop n env s arg_strings new = (Inr (new @ arg_strings), s)"
  by (induction arg_strings arbitrary: new) auto

lemma read_args_mapping_file:
  assumes "process_dict env path = Inr (PDict kvs)" and "kvs \<noteq> []"
    and "[c] \<in> set (fromfile_prefix_chars s)"
  shows "read_args_from_files n env s [c # path] =
           (Inr [], s\<lparr>config_files_data := merge_dict (config_files_data s) kvs\<rparr>)"
  using assms by (simp add: read_args_from_files_def)

lemma map_of_fold_update:
  "map_of (fold (\<lambda>(k, v). AList.update k v) kvs d) key =
     (case map_of (rev kvs) key of Some v \<Rightarrow> Some v | None \<Rightarrow> map_of d key)"
proof (induction kvs arbitrary: d)
  case Nil
  then show ?case by simp
next
  case (Cons kv kvs)
  obtain k v where kv: "kv = (k, v)" by (cases kv)
  show ?case
    by (simp add: kv Cons.IH update_conv' map_of_append map_add_def split: option.split)
qed

lemma map_of_merge_dict:
  "map_of (merge_dict d kvs) key =
     (case map_of (rev kvs) key of Some v \<Rightarrow> Some v | None \<Rightarrow> map_of d key)"
  by (simp add: merge_dict_def map_of_fold_update)

lemma map_of_fold_merge:
  "map_of (fold (\<lambda>token d. merge_dict d (mapping_of token)) tokens d0) key =
     (case map_of (fold (\<lambda>token d. merge_dict d (mapping_of token)) tokens []) key of
        Some v \<Rightarrow> Some v
      | None \<Rightarrow> map_of d0 key)"
  by (induction tokens rule: rev_induct) (simp_all add: map_of_merge_dict split: option.split)

lemma map_of_add_defaults:
  "map_of (add_defaults acts ns) name =
     (case map_of ns name of
        Some v \<Rightarrow> Some v
      | None \<Rightarrow> map_option default (find (\<lambda>a. dest a = name) acts))"
proof (induction acts arbitrary: ns)
  case Nil
  then show ?case by (simp split: option.split)
next
  case (Cons a acts)
  show ?case
    by (auto simp: Cons.IH map_of_append map_add_def split: option.split)
qed

lemma map_of_kwargs:
  "kwargs d = Some ns \<Longrightarrow> map_of ns name = map_of d (PStr name)"
  by (induction d arbitrary: ns rule: kwargs.induct) (auto split: option.splits if_splits)

lemma parse_config_files_frame:
  "same_but_config s (snd (parse_config_files env s config_files))"
proof (induction config_files arbitrary: s)
  case Nil
  then show ?case by (simp add: same_but_config_refl)
next
  case (Cons c cs)
  have step: "same_but_config s (snd (ArgumentParser_parse_args env s [c] None))"
    using read_args_frame(1) [of s "recursion_limit env" env "[c]" "[]"]
    by (auto simp: ArgumentParser_parse_args_def read_args_from_files_def Let_def
             split: prod.splits sum.splits)
  show ?case
    using step Cons.IH [of "snd (ArgumentParser_parse_args env s [c] None)"]
    by (auto split: prod.splits sum.splits intro: same_but_config_trans)
qed

lemma update_from_overrides_frame:
  "same_but_config s (snd (update_from_overrides s overrides))"
  by (cases overrides)
     (auto simp: update_from_overrides_def same_but_config_def split: prod.splits option.splits)

lemma process_default_namespace_frame:
  "same_but_config s (snd (process_default_namespace s overrides))"
  using update_from_overrides_frame [of s overrides]
  by (auto simp: process_default_namespace_def split: prod.splits option.splits sum.splits)

lemma process_default_namespace_lookup:
  assumes "process_default_namespace s overrides = (Inr default_namespace, s')"
    and "\<not> is_namespace overrides"
  shows "map_of (case default_namespace of None \<Rightarrow> [] | Some ns \<Rightarrow> ns) name =
           (case override_value overrides name of
              Some v \<Rightarrow> Some v
            | None \<Rightarrow> map_of (config_files_data s) (PStr name))"
proof -
  obtain err s1 where u: "update_from_overrides s overrides = (err, s1)"
    by (cases "update_from_overrides s overrides")
  from assms(1) u have err: "err = None" and s': "s' = s1"
    by (auto simp: process_default_namespace_def split: option.splits if_splits sum.splits)
  have cfg: "map_of (config_files_data s1) (PStr name) =
               (case override_value overrides name of
                  Some v \<Rightarrow> Some v
                | None \<Rightarrow> map_of (config_files_data s) (PStr name))"
    using u err assms(2)
    by (cases overrides)
       (auto simp: update_from_overrides_def override_value_def map_of_merge_dict
             split: if_splits option.splits)
  have "map_of (case default_namespace of None \<Rightarrow> [] | Some ns \<Rightarrow> ns) name =
          map_of (config_files_data s1) (PStr name)"
    using assms(1) u err
    by (auto simp: process_default_namespace_def Namespace_def map_of_kwargs
             split: if_splits sum.splits option.splits)
  with cfg show ?thesis by simp
qed

lemma ArgumentParser_parse_args_plain:
  assumes "list_all (\<lambda>a. \<not> (a \<noteq> [] \<and> [hd a] \<in> set (fromfile_prefix_chars s))) arg_strings"
  shows "ArgumentParser_parse_args env s arg_strings namespace_opt =
           (case parse_tokens env (actions s) arg_strings
                   (add_defaults (actions s)
                      (case namespace_opt of None \<Rightarrow> [] | Some ns \<Rightarrow> ns)) of
              Inl e \<Rightarrow> (Inl e, s)
            | Inr ns \<Rightarrow> (Inr ns, s))"
  using read_args_loop_plain [OF assms, of "recursion_limit env" env "[]"]
  by (simp add: ArgumentParser_parse_args_def read_args_from_files_def)

lemma parse_config_files_mapping_files:
  assumes "parse_config_files env s marker_tokens = (Inr u, s1)"
    and "list_all (\<lambda>token. token \<noteq> [] \<and> is_config_file_arg s token \<and>
                     mapping_file env (tl token)) marker_tokens"
  shows "config_files_data s1 =
           fold (\<lambda>token d. merge_dict d (file_mapping env (tl token))) marker_tokens
             (config_files_data s)"
  using assms
proof (induction marker_tokens arbitrary: s)
  case Nil
  then show ?case by simp
next
  case (Cons token rest)
  obtain c path where token: "token = c # path"
    using Cons.prems(2) by (cases token) auto
  from Cons.prems(2) token have marker: "[c] \<in> set (fromfile_prefix_chars s)"
    by (simp add: is_config_file_arg_def)
  from Cons.prems(2) token obtain kvs where
    decoded: "process_dict env path = Inr (PDict kvs)" and nonempty: "kvs \<noteq> []"
    by (auto simp: mapping_file_def split: sum.splits pyval.splits)
  have fm: "file_mapping env path = kvs"
    using decoded by (simp add: file_mapping_def)
  define s' where "s' = s\<lparr>config_files_data := merge_dict (config_files_data s) kvs\<rparr>"
  have expand: "read_args_from_files (recursion_limit env) env s [c # path] = (Inr [], s')"
    unfolding s'_def using decoded nonempty marker by (rule read_args_mapping_file)
  from Cons.prems(1) expand token have rest: "parse_config_files env s' rest = (Inr u, s1)"
    by (auto simp: ArgumentParser_parse_args_def split: sum.splits)
  have same: "is_config_file_arg s' = is_config_file_arg s"
    by (simp add: s'_def is_config_file_arg_def fun_eq_iff)
  have "config_files_data s1 =
          fold (\<lambda>token d. merge_dict d (file_mapping env (tl token))) rest (config_files_data s')"
    using Cons.IH [OF rest] Cons.prems(2) by (simp add: same)
  then show ?case
    by (simp add: token fm s'_def)
qed

lemma map_of_setattr_args:
  "name \<noteq> ''args'' \<Longrightarrow> map_of (the (args (setattr_args s ns))) name = map_of ns name"
  by (simp add: setattr_args_def update_conv')

section \<open>Evaluation at concrete inputs\<close>

lemma expand_numeral:
  "expand_arg_strings_from_file (numeral k) env s config_file_path new_arg_strings =
     (case fopen env config_file_path of
        Inl e \<Rightarrow> (Inl e, s)
      | Inr content \<Rightarrow>
          (case read_args_loop (pred_numeral k) env s
                  (concat (map convert_arg_line_to_args (splitlines content))) [] of
             (Inl e, s1) \<Rightarrow> if is_OSError e then (Inl SystemExit, s1) else (Inl e, s1)
           | (Inr arg_strings, s1) \<Rightarrow> (Inr (new_arg_strings @ arg_strings), s1)))"
  by (simp add: numeral_eq_Suc)

lemmas world_defs = demo_env_def demo_parser_def mode_action_def args_parser_def args_action_def
  inp_parser_def inp_action_def MyArguments_init_def add_argument_def demo_fopen_def
  demo_pickle_load_def demo_yaml_load_def args_txt_def two_yaml_def sample_tokens_def
  is_positional_def outside_plain_form_def apply_stores_def

lemma initial_args_Some: "initial_args env s (Some arg_list) = arg_list"
  by (simp add: initial_args_def)

lemmas code_defs = parse_args_def Let_def initial_args_def ArgumentParser_parse_args_def
  read_args_from_files_def process_dict_def try_pickle_parse_def try_yml_parse_def
  try_json_parse_def pickle_caught_def yaml_caught_def json_caught_def
  process_default_namespace_def update_from_overrides_def Namespace_def setattr_args_def
  is_config_file_arg_def splitlines_def convert_arg_line_to_args_def is_linebreak_def
  is_OSError_def merge_dict_def lower_def lower_char_def getattr_def

lemmas layer_defs = override_value_def config_file_value_def files_mapping_def file_mapping_def
  mapping_file_def accumulated_value_def config_layer_def precedence_def

text \<open>On the resolver with the flag \<^verbatim>\<open>--mode\<close>, the tokens \<^verbatim>\<open>--mode test\<close> store
  \<^verbatim>\<open>'test'\<close> and the empty token list leaves the entry as it is.\<close>

lemma stores_value_mode_test:
  "stores_value demo_env (actions demo_parser) [''--mode'', ''test''] ''mode'' (Some (PStr ''test''))"
  by (auto simp: stores_value_def world_defs update_conv')

lemma stores_value_mode_absent:
  "stores_value demo_env (actions demo_parser) [] ''mode'' None"
  by (auto simp: stores_value_def world_defs)

section \<open>C1: the precedence law\<close>

text \<open>
  C1, as the specification states it, fails on the code. By design of the module,
  \<^verbatim>\<open>self.config_files_data\<close> is never reset: what an earlier call merged there (mapping
  files and dict overrides) is still a default in a later call, so a call with no file, no
  override and no token for a parameter need not resolve to the declared default. By design
  of the library the module hands the defaults to, a parameter need not keep the default it
  is handed: a positional with \<^verbatim>\<open>nargs='?'\<close> stores its declared default when no token names
  it, over the override. And, as a side effect of the attribute hook, the entry of a
  parameter named \<^verbatim>\<open>args\<close> is overwritten with the namespace itself; the amended claim says
  nothing about that parameter. The counterexample evaluates the three: a second call on
  the resolver that was first called with the override \<^verbatim>\<open>{'mode': 'eval'}\<close> resolves \<^verbatim>\<open>mode\<close>
  to \<^verbatim>\<open>'eval'\<close>, not to the default \<^verbatim>\<open>'train'\<close>; the positional \<^verbatim>\<open>inp\<close> with default \<^verbatim>\<open>'d'\<close>
  and the override \<^verbatim>\<open>{'inp': 'o'}\<close> resolves to \<^verbatim>\<open>'d'\<close>; and the parameter \<^verbatim>\<open>args\<close> with
  default \<^verbatim>\<open>'x'\<close> resolves to the namespace object.
\<close>

theorem precedence_law_counterexample:
  "fst (parse_args demo_env demo_parser (Some []) (PDict [(PStr ''mode'', PStr ''eval'')]))
     = Inr [(''mode'', PStr ''eval'')]
   \<and> override_value PNone ''mode'' = None
   \<and> config_file_value demo_env
         (snd (parse_args demo_env demo_parser (Some []) (PDict [(PStr ''mode'', PStr ''eval'')])))
         [] ''mode'' = None
   \<and> fst (parse_args demo_env
         (snd (parse_args demo_env demo_parser (Some []) (PDict [(PStr ''mode'', PStr ''eval'')])))
         (Some []) PNone) = Inr [(''mode'', PStr ''eval'')]
   \<and> precedence None None None (default mode_action) = PStr ''train''
   \<and> override_value (PDict [(PStr ''inp'', PStr ''o'')]) ''inp'' = Some (PStr ''o'')
   \<and> fst (parse_args demo_env inp_parser (Some []) (PDict [(PStr ''inp'', PStr ''o'')]))
       = Inr [(''inp'', PStr ''d'')]
   \<and> precedence None (Some (PStr ''o'')) None (default inp_action) = PStr ''o''
   \<and> fst (parse_args demo_env args_parser (Some []) PNone) = Inr [(''args'', PThisNamespace)]
   \<and> precedence None None None (default args_action) = PStr ''x''"
  by (simp add: world_defs code_defs layer_defs)

text \<open>
  C1 (amended): let \<^verbatim>\<open>parse_args\<close> return, with overrides that are no namespace and with
  marker tokens that each name a file decoding to a non-empty mapping. Then, for a declared
  parameter that is not named \<^verbatim>\<open>args\<close> and that the library treats as a flag with the
  \<^verbatim>\<open>store\<close> action on the tokens of the call, the value in the returned mapping is the
  value of its command-line token if there is one, else its entry in the dict given as
  overrides if there is one, else its entry in the mapping files of the call (merged in the
  order of the tokens, a later file over an earlier one) if there is one, else the entry
  earlier calls left in the resolver's config data if there is one, else the declared
  default.
\<close>

theorem precedence_law:
  assumes ok: "fst (parse_args env s args_opt overrides) = Inr ns"
    and decl: "find (\<lambda>a. dest a = name) (actions s) = Some a"
    and name: "name \<noteq> ''args''"
    and ovr: "\<not> is_namespace overrides"
    and files: "list_all (\<lambda>token. mapping_file env (tl token))
                  (filter (is_config_file_arg s) (initial_args env s args_opt))"
    and store: "stores_value env (actions s)
                  (filter (\<lambda>arg. \<not> is_config_file_arg s arg) (initial_args env s args_opt))
                  name cli"
  shows "map_of ns name =
           Some (precedence cli
                   (override_value overrides name)
                   (config_layer env s (initial_args env s args_opt) name)
                   (default a))"
proof -
  define arg_list where "arg_list = initial_args env s args_opt"
  define config_files_args where "config_files_args = filter (is_config_file_arg s) arg_list"
  define other_args where "other_args = filter (\<lambda>arg. \<not> is_config_file_arg s arg) arg_list"
  obtain r1 s1 where pc: "parse_config_files env s config_files_args = (r1, s1)"
    by (cases "parse_config_files env s config_files_args")
  obtain r2 s2 where pd: "process_default_namespace s1 overrides = (r2, s2)"
    by (cases "process_default_namespace s1 overrides")
  from ok pc have noempty: "[] \<notin> set arg_list" and r1: "r1 = Inr ()"
    by (auto simp: parse_args_def Let_def arg_list_def config_files_args_def
             split: if_splits sum.splits prod.splits)
  from ok pc pd obtain default_namespace where r2: "r2 = Inr default_namespace"
    by (auto simp: parse_args_def Let_def arg_list_def config_files_args_def
             split: if_splits sum.splits prod.splits)
  have f1: "same_but_config s s1"
    using parse_config_files_frame [of s env config_files_args] pc by simp
  have f2: "same_but_config s1 s2"
    using process_default_namespace_frame [of s1 overrides] pd by simp
  have chars: "fromfile_prefix_chars s2 = fromfile_prefix_chars s"
    and acts: "actions s2 = actions s"
    using f1 f2 by (simp_all add: same_but_config_def)
  have plain: "list_all (\<lambda>a. \<not> (a \<noteq> [] \<and> [hd a] \<in> set (fromfile_prefix_chars s2))) other_args"
    by (simp add: other_args_def chars is_config_file_arg_def list_all_iff)
  define ns0 where
    "ns0 = add_defaults (actions s) (case default_namespace of None \<Rightarrow> [] | Some n \<Rightarrow> n)"
  note final = ArgumentParser_parse_args_plain [OF plain, of env default_namespace]
  from ok pc pd r2 final obtain ns1 where
    st: "parse_tokens env (actions s) other_args ns0 = Inr ns1"
    and ns: "ns = the (args (setattr_args s2 ns1))"
    by (auto simp: parse_args_def Let_def arg_list_def config_files_args_def other_args_def acts
               ns0_def split: if_splits sum.splits prod.splits)
  have cli: "map_of ns1 name = (case cli of Some c \<Rightarrow> Some c | None \<Rightarrow> map_of ns0 name)"
    using store st by (simp add: stores_value_def other_args_def arg_list_def)
  have all_mapping: "list_all (\<lambda>token. token \<noteq> [] \<and> is_config_file_arg s token \<and>
                        mapping_file env (tl token)) config_files_args"
    using files noempty by (auto simp: config_files_args_def arg_list_def list_all_iff)
  have merged: "config_files_data s1 =
                  fold (\<lambda>token d. merge_dict d (file_mapping env (tl token))) config_files_args
                    (config_files_data s)"
    using parse_config_files_mapping_files [OF _ all_mapping] pc r1 by simp
  have cfg: "map_of (config_files_data s1) (PStr name) = config_layer env s arg_list name"
    unfolding merged config_layer_def config_file_value_def files_mapping_def
      accumulated_value_def config_files_args_def
    by (rule map_of_fold_merge)
  have dn: "map_of (case default_namespace of None \<Rightarrow> [] | Some n \<Rightarrow> n) name =
              (case override_value overrides name of
                 Some v \<Rightarrow> Some v
               | None \<Rightarrow> map_of (config_files_data s1) (PStr name))"
    using process_default_namespace_lookup [of s1 overrides default_namespace s2 name] pd r2 ovr
    by simp
  show ?thesis
    unfolding arg_list_def [symmetric]
    by (simp add: ns map_of_setattr_args [OF name] cli ns0_def map_of_add_defaults dn decl cfg
          precedence_def split: option.split)
qed

text \<open>
  The law at five inputs on the resolver with the flag \<^verbatim>\<open>--mode\<close>: all layers present with
  two mapping files, override over the files, the later file over the earlier, default
  alone, and the entry an earlier call left behind.
\<close>

theorem precedence_law_witness:
  "fst (parse_args demo_env demo_parser (Some [''@cfg.yaml'', ''--mode'', ''test'', ''@cfg2.yaml''])
          (PDict [(PStr ''mode'', PStr ''dev'')])) = Inr [(''mode'', PStr ''test'')]
   \<and> find (\<lambda>a. dest a = ''mode'') (actions demo_parser) = Some mode_action
   \<and> \<not> is_namespace (PDict [(PStr ''mode'', PStr ''dev'')])
   \<and> list_all (\<lambda>token. mapping_file demo_env (tl token))
        (filter (is_config_file_arg demo_parser)
           [''@cfg.yaml'', ''--mode'', ''test'', ''@cfg2.yaml''])
   \<and> stores_value demo_env (actions demo_parser)
        (filter (\<lambda>arg. \<not> is_config_file_arg demo_parser arg)
           [''@cfg.yaml'', ''--mode'', ''test'', ''@cfg2.yaml''])
        ''mode'' (Some (PStr ''test''))
   \<and> override_value (PDict [(PStr ''mode'', PStr ''dev'')]) ''mode'' = Some (PStr ''dev'')
   \<and> config_layer demo_env demo_parser [''@cfg.yaml'', ''--mode'', ''test'', ''@cfg2.yaml'']
        ''mode'' = Some (PStr ''prod'')
   \<and> map_of [(''mode'', PStr ''test'')] ''mode''
       = Some (precedence (Some (PStr ''test'')) (Some (PStr ''dev'')) (Some (PStr ''prod''))
                 (default mode_action))
   \<and> fst (parse_args demo_env demo_parser (Some [''@cfg.yaml''])
          (PDict [(PStr ''mode'', PStr ''dev'')])) = Inr [(''mode'', PStr ''dev'')]
   \<and> map_of [(''mode'', PStr ''dev'')] ''mode''
       = Some (precedence None (Some (PStr ''dev'')) (Some (PStr ''eval'')) (default mode_action))
   \<and> fst (parse_args demo_env demo_parser (Some [''@cfg.yaml'', ''@cfg2.yaml'']) PNone)
       = Inr [(''mode'', PStr ''prod'')]
   \<and> map_of [(''mode'', PStr ''prod'')] ''mode''
       = Some (precedence None None (Some (PStr ''prod'')) (default mode_action))
   \<and> fst (parse_args demo_env demo_parser (Some []) PNone) = Inr [(''mode'', PStr ''train'')]
   \<and> map_of [(''mode'', PStr ''train'')] ''mode''
       = Some (precedence None None None (default mode_action))
   \<and> fst (parse_args demo_env
            (snd (parse_args demo_env demo_parser (Some [''@cfg.yaml'']) PNone))
            (Some []) PNone) = Inr [(''mode'', PStr ''eval'')]
   \<and> config_layer demo_env (snd (parse_args demo_env demo_parser (Some [''@cfg.yaml'']) PNone))
        [] ''mode'' = Some (PStr ''eval'')
   \<and> map_of [(''mode'', PStr ''eval'')] ''mode''
       = Some (precedence None None (Some (PStr ''eval'')) (default mode_action))"
proof -
  define later where "later = snd (parse_args demo_env demo_parser (Some [''@cfg.yaml'']) PNone)"
  have later: "later = demo_parser\<lparr>config_files_data := [(PStr ''mode'', PStr ''eval'')],
                 args := Some [(''mode'', PStr ''eval'')]\<rparr>"
    by (simp add: later_def world_defs code_defs)
  have decl: "find (\<lambda>a. dest a = ''mode'') (actions demo_parser) = Some mode_action"
    by (simp add: world_defs)
  have decl5: "find (\<lambda>a. dest a = ''mode'') (actions later) = Some mode_action"
    by (simp add: later world_defs)
  have name: "''mode'' \<noteq> ''args''" by simp
  have dict: "\<not> is_namespace (PDict [(PStr ''mode'', PStr ''dev'')])" by simp
  have none: "\<not> is_namespace PNone" by simp
  have m1: "list_all (\<lambda>token. mapping_file demo_env (tl token))
        (filter (is_config_file_arg demo_parser)
           [''@cfg.yaml'', ''--mode'', ''test'', ''@cfg2.yaml''])"
    by (simp add: world_defs code_defs layer_defs)
  have m2: "list_all (\<lambda>token. mapping_file demo_env (tl token))
        (filter (is_config_file_arg demo_parser) [''@cfg.yaml''])"
    by (simp add: world_defs code_defs layer_defs)
  have m3: "list_all (\<lambda>token. mapping_file demo_env (tl token))
        (filter (is_config_file_arg demo_parser) [''@cfg.yaml'', ''@cfg2.yaml''])"
    by (simp add: world_defs code_defs layer_defs)
  have m4: "list_all (\<lambda>token. mapping_file demo_env (tl token))
        (filter (is_config_file_arg demo_parser) [])"
    by simp
  have m5: "list_all (\<lambda>token. mapping_file demo_env (tl token))
        (filter (is_config_file_arg later) [])"
    by simp
  have o1: "filter (\<lambda>arg. \<not> is_config_file_arg demo_parser arg)
              [''@cfg.yaml'', ''--mode'', ''test'', ''@cfg2.yaml''] = [''--mode'', ''test'']"
    by (simp add: world_defs code_defs)
  have o2: "filter (\<lambda>arg. \<not> is_config_file_arg demo_parser arg) [''@cfg.yaml''] = []"
    by (simp add: world_defs code_defs)
  have o3: "filter (\<lambda>arg. \<not> is_config_file_arg demo_parser arg) [''@cfg.yaml'', ''@cfg2.yaml'']
              = []"
    by (simp add: world_defs code_defs)
  have s1: "stores_value demo_env (actions demo_parser)
        (filter (\<lambda>arg. \<not> is_config_file_arg demo_parser arg)
           [''@cfg.yaml'', ''--mode'', ''test'', ''@cfg2.yaml''])
        ''mode'' (Some (PStr ''test''))"
    unfolding o1 by (rule stores_value_mode_test)
  have s2: "stores_value demo_env (actions demo_parser)
        (filter (\<lambda>arg. \<not> is_config_file_arg demo_parser arg) [''@cfg.yaml'']) ''mode'' None"
    unfolding o2 by (rule stores_value_mode_absent)
  have s3: "stores_value demo_env (actions demo_parser)
        (filter (\<lambda>arg. \<not> is_config_file_arg demo_parser arg) [''@cfg.yaml'', ''@cfg2.yaml''])
        ''mode'' None"
    unfolding o3 by (rule stores_value_mode_absent)
  have s4: "stores_value demo_env (actions demo_parser)
        (filter (\<lambda>arg. \<not> is_config_file_arg demo_parser arg) []) ''mode'' None"
    using stores_value_mode_absent by simp
  have s5: "stores_value demo_env (actions later)
        (filter (\<lambda>arg. \<not> is_config_file_arg later arg) []) ''mode'' None"
    using stores_value_mode_absent by (simp add: later world_defs)
  have r1: "fst (parse_args demo_env demo_parser
          (Some [''@cfg.yaml'', ''--mode'', ''test'', ''@cfg2.yaml''])
          (PDict [(PStr ''mode'', PStr ''dev'')])) = Inr [(''mode'', PStr ''test'')]"
    by (simp add: world_defs code_defs)
  have r2: "fst (parse_args demo_env demo_parser (Some [''@cfg.yaml''])
          (PDict [(PStr ''mode'', PStr ''dev'')])) = Inr [(''mode'', PStr ''dev'')]"
    by (simp add: world_defs code_defs)
  have r3: "fst (parse_args demo_env demo_parser (Some [''@cfg.yaml'', ''@cfg2.yaml'']) PNone)
       = Inr [(''mode'', PStr ''prod'')]"
    by (simp add: world_defs code_defs)
  have r4: "fst (parse_args demo_env demo_parser (Some []) PNone) = Inr [(''mode'', PStr ''train'')]"
    by (simp add: world_defs code_defs)
  have r5: "fst (parse_args demo_env later (Some []) PNone) = Inr [(''mode'', PStr ''eval'')]"
    by (simp add: later world_defs code_defs)
  have v1: "override_value (PDict [(PStr ''mode'', PStr ''dev'')]) ''mode'' = Some (PStr ''dev'')"
    by (simp add: layer_defs)
  have v3: "override_value PNone ''mode'' = None"
    by (simp add: layer_defs)
  have l1: "config_layer demo_env demo_parser [''@cfg.yaml'', ''--mode'', ''test'', ''@cfg2.yaml'']
        ''mode'' = Some (PStr ''prod'')"
    by (simp add: world_defs code_defs layer_defs)
  have l2: "config_layer demo_env demo_parser [''@cfg.yaml''] ''mode'' = Some (PStr ''eval'')"
    by (simp add: world_defs code_defs layer_defs)
  have l3: "config_layer demo_env demo_parser [''@cfg.yaml'', ''@cfg2.yaml''] ''mode''
        = Some (PStr ''prod'')"
    by (simp add: world_defs code_defs layer_defs)
  have l4: "config_layer demo_env demo_parser [] ''mode'' = None"
    by (simp add: world_defs code_defs layer_defs)
  have l5: "config_layer demo_env later [] ''mode'' = Some (PStr ''eval'')"
    by (simp add: later world_defs code_defs layer_defs)
  note t1 = precedence_law [OF r1 decl name dict, unfolded initial_args_Some, OF m1 s1]
  note t2 = precedence_law [OF r2 decl name dict, unfolded initial_args_Some, OF m2 s2]
  note t3 = precedence_law [OF r3 decl name none, unfolded initial_args_Some, OF m3 s3]
  note t4 = precedence_law [OF r4 decl name none, unfolded initial_args_Some, OF m4 s4]
  note t5 = precedence_law [OF r5 decl5 name none, unfolded initial_args_Some, OF m5 s5]
  show ?thesis
    using t1 t2 t3 t4 t5
    by (simp only: later_def [symmetric] r1 r2 r3 r4 r5 decl dict m1 s1 v1 v3 l1 l2 l3 l4 l5
          simp_thms)
qed

section \<open>C2: tokens of a line-oriented file\<close>

text \<open>
  C2 does not hold on the code. \<^verbatim>\<open>parse_args\<close> hands every marker token to its own call of
  the inherited \<^verbatim>\<open>ArgumentParser.parse_args\<close> and drops the namespace that call returns;
  the final call only sees the tokens that are no file references. The tokens of a
  line-oriented file are therefore expanded and parsed, and their values are thrown away.
  At the file \<^verbatim>\<open>args.txt\<close> with the lines \<^verbatim>\<open>--mode\<close> and \<^verbatim>\<open>test\<close>: the file decodes to no
  mapping, its reference expands to the two tokens, the inner call resolves \<^verbatim>\<open>mode\<close> to
  \<^verbatim>\<open>'test'\<close>, and \<^verbatim>\<open>parse_args\<close> returns the default \<^verbatim>\<open>'train'\<close>, whereas the same two
  tokens given inline resolve to \<^verbatim>\<open>'test'\<close>.
\<close>

theorem text_file_tokens_discarded:
  "splitlines args_txt = [''--mode'', ''test'']
   \<and> process_dict demo_env ''args.txt'' = Inr PNone
   \<and> fst (read_args_from_files (recursion_limit demo_env) demo_env demo_parser [''@args.txt''])
       = Inr [''--mode'', ''test'']
   \<and> fst (ArgumentParser_parse_args demo_env demo_parser [''@args.txt''] None)
       = Inr [(''mode'', PStr ''test'')]
   \<and> fst (parse_args demo_env demo_parser (Some [''@args.txt'']) PNone)
       = Inr [(''mode'', PStr ''train'')]
   \<and> fst (parse_args demo_env demo_parser (Some [''--mode'', ''test'']) PNone)
       = Inr [(''mode'', PStr ''test'')]"
  by (simp add: world_defs code_defs expand_numeral)

section \<open>C3: a namespace as overrides\<close>

text \<open>
  C3 does not hold on the code: for a namespace the method reads the attribute
  \<^verbatim>\<open>_get_kwarg\<close>, which a \<^verbatim>\<open>Namespace\<close> does not have unless one of its own pairs is named
  so. For every namespace without such a pair the first statement of
  \<^verbatim>\<open>process_default_namespace\<close> raises \<open>AttributeError\<close> and leaves the object as it was,
  and so does \<^verbatim>\<open>parse_args\<close> on the empty token list.
\<close>

theorem namespace_overrides_raise:
  "map_of kw ''_get_kwarg'' = None \<Longrightarrow>
     update_from_overrides s (PNamespace kw) = (Some AttributeError, s)
     \<and> parse_args env s (Some []) (PNamespace kw) = (Inl AttributeError, s)"
  by (simp add: parse_args_def Let_def initial_args_def process_default_namespace_def
        update_from_overrides_def)

text \<open>
  At the namespace \<^verbatim>\<open>Namespace(mode='eval')\<close> on the resolver with the flag \<^verbatim>\<open>--mode\<close>; the
  same pair given as a dict becomes the default.
\<close>

theorem namespace_overrides_raise_witness:
  "map_of [(''mode'', PStr ''eval'')] ''_get_kwarg'' = None
   \<and> update_from_overrides demo_parser (PNamespace [(''mode'', PStr ''eval'')])
       = (Some AttributeError, demo_parser)
   \<and> parse_args demo_env demo_parser (Some []) (PNamespace [(''mode'', PStr ''eval'')])
       = (Inl AttributeError, demo_parser)
   \<and> fst (parse_args demo_env demo_parser (Some []) (PDict [(PStr ''mode'', PStr ''eval'')]))
       = Inr [(''mode'', PStr ''eval'')]"
proof -
  have h: "map_of [(''mode'', PStr ''eval'')] ''_get_kwarg'' = None" by simp
  have d: "fst (parse_args demo_env demo_parser (Some []) (PDict [(PStr ''mode'', PStr ''eval'')]))
       = Inr [(''mode'', PStr ''eval'')]"
    by (simp add: world_defs code_defs)
  show ?thesis
    using namespace_overrides_raise [OF h, of demo_parser demo_env] h d by blast
qed

section \<open>C4: the order of the decoders\<close>

text \<open>
  C4 does not hold on the code, at two files that are YAML mappings and no pickles.
  The file \<^verbatim>\<open>empty.yaml\<close> holds \<^verbatim>\<open>{}\<close>: the pickle attempt fails silently and the YAML
  attempt yields a mapping, the first decoder to do so; \<^verbatim>\<open>process_dict\<close> tests the value
  for truthiness and returns \<open>None\<close> all the same, the file is read as a line-oriented
  token file, its line \<^verbatim>\<open>{}\<close> becomes a token and the resolution exits, where the
  resolution without the token returns the defaults.
  The file \<^verbatim>\<open>two.yaml\<close> holds \<^verbatim>\<open>cfg: 1\<close> and \<^verbatim>\<open>mode: eval\<close>: the YAML attempt on it yields a
  non-empty mapping, but the pickle attempt does not fail silently: its exception is of no
  class that \<^verbatim>\<open>try_pickle_parse\<close> catches, and it leaves \<^verbatim>\<open>process_dict\<close> and \<^verbatim>\<open>parse_args\<close>
  before the YAML attempt is made.
\<close>

theorem yaml_mapping_not_used:
  "try_pickle_parse demo_env ''empty.yaml'' = Inr PNone
   \<and> try_yml_parse demo_env ''empty.yaml'' = Inr (PDict [])
   \<and> process_dict demo_env ''empty.yaml'' = Inr PNone
   \<and> fst (read_args_from_files (recursion_limit demo_env) demo_env demo_parser [''@empty.yaml''])
       = Inr [''{}'']
   \<and> fst (parse_args demo_env demo_parser (Some [''@empty.yaml'']) PNone) = Inl SystemExit
   \<and> fst (parse_args demo_env demo_parser (Some []) PNone) = Inr [(''mode'', PStr ''train'')]
   \<and> try_yml_parse demo_env ''two.yaml''
       = Inr (PDict [(PStr ''cfg'', PInt 1), (PStr ''mode'', PStr ''eval'')])
   \<and> try_pickle_parse demo_env ''two.yaml'' = Inl (OtherError ''ModuleNotFoundError'')
   \<and> process_dict demo_env ''two.yaml'' = Inl (OtherError ''ModuleNotFoundError'')
   \<and> fst (parse_args demo_env demo_parser (Some [''@two.yaml'']) PNone)
       = Inl (OtherError ''ModuleNotFoundError'')"
  by (simp add: world_defs code_defs expand_numeral)

section \<open>C5: exceptions of the decoders\<close>

text \<open>
  C5 does not hold on the code: \<^verbatim>\<open>try_pickle_parse\<close> catches \<open>ValueError\<close>, \<open>TypeError\<close> and
  \<open>UnpicklingError\<close> only. On the empty file \<^verbatim>\<open>empty.txt\<close> the pickle decoder raises
  \<open>EOFError\<close>, which leaves \<^verbatim>\<open>try_pickle_parse\<close>, \<^verbatim>\<open>process_dict\<close> and \<^verbatim>\<open>parse_args\<close>.
\<close>

theorem pickle_error_escapes:
  "try_pickle_parse demo_env ''empty.txt'' = Inl EOFError
   \<and> process_dict demo_env ''empty.txt'' = Inl EOFError
   \<and> fst (parse_args demo_env demo_parser (Some [''@empty.txt'']) PNone) = Inl EOFError"
  by (simp add: world_defs code_defs expand_numeral)

section \<open>C6: overrides of an invalid type\<close>

text \<open>
  C6, as stated, fails: the type of the overrides is checked in
  \<^verbatim>\<open>process_default_namespace\<close>, which \<^verbatim>\<open>parse_args\<close> calls after the loop over the marker
  tokens. With the overrides \<open>5\<close>, a marker token naming a missing file raises
  \<open>FileNotFoundError\<close> and no \<open>TypeError\<close>; a marker token naming the mapping file
  \<^verbatim>\<open>cfg.yaml\<close> has its mapping merged into the config data, which was empty, before the
  \<open>TypeError\<close> is raised.
\<close>

theorem invalid_overrides_type_counterexample:
  "truthy (PInt 5) \<and> \<not> is_dict (PInt 5) \<and> \<not> is_namespace (PInt 5)
   \<and> fst (parse_args demo_env demo_parser (Some [''@nope'']) (PInt 5)) = Inl FileNotFoundError
   \<and> parse_args demo_env demo_parser (Some [''@cfg.yaml'']) (PInt 5)
       = (Inl TypeError, demo_parser\<lparr>config_files_data := [(PStr ''mode'', PStr ''eval'')]\<rparr>)
   \<and> config_files_data demo_parser = []"
  by (simp add: world_defs code_defs)

text \<open>
  C6 (amended): for a token list without an empty token whose marker tokens are processed
  without an error, overrides that are truthy and neither a namespace nor a dict make
  \<^verbatim>\<open>parse_args\<close> raise \<open>TypeError\<close> once the marker tokens have been processed (the object is
  as the loop over them left it) and before the other tokens are parsed; the cached result
  is the one from before the call.
\<close>

theorem invalid_overrides_type:
  assumes "truthy overrides" and "\<not> is_dict overrides" and "\<not> is_namespace overrides"
    and "[] \<notin> set (initial_args env s args_opt)"
    and "parse_config_files env s
           (filter (is_config_file_arg s) (initial_args env s args_opt)) = (Inr u, s1)"
  shows "parse_args env s args_opt overrides = (Inl TypeError, s1) \<and> args s1 = args s"
proof -
  have "update_from_overrides s1 overrides = (Some TypeError, s1)"
    using assms(1-3) by (cases overrides) (simp_all add: update_from_overrides_def)
  then have "process_default_namespace s1 overrides = (Inl TypeError, s1)"
    by (simp add: process_default_namespace_def)
  moreover have "args s1 = args s"
    using parse_config_files_frame
            [of s env "filter (is_config_file_arg s) (initial_args env s args_opt)"] assms(5)
    by (simp add: same_but_config_def)
  ultimately show ?thesis
    using assms(4,5) by (simp add: parse_args_def Let_def)
qed

text \<open>The amended claim at the tokens \<^verbatim>\<open>@cfg.yaml --mode test\<close> with the overrides \<open>5\<close>.\<close>

theorem invalid_overrides_type_witness:
  "truthy (PInt 5) \<and> \<not> is_dict (PInt 5) \<and> \<not> is_namespace (PInt 5)
   \<and> [] \<notin> set [''@cfg.yaml'', ''--mode'', ''test'']
   \<and> parse_config_files demo_env demo_parser
        (filter (is_config_file_arg demo_parser) [''@cfg.yaml'', ''--mode'', ''test''])
       = (Inr (), demo_parser\<lparr>config_files_data := [(PStr ''mode'', PStr ''eval'')]\<rparr>)
   \<and> parse_args demo_env demo_parser (Some [''@cfg.yaml'', ''--mode'', ''test'']) (PInt 5)
       = (Inl TypeError, demo_parser\<lparr>config_files_data := [(PStr ''mode'', PStr ''eval'')]\<rparr>)
   \<and> args (demo_parser\<lparr>config_files_data := [(PStr ''mode'', PStr ''eval'')]\<rparr>)
       = args demo_parser"
proof -
  have h1: "truthy (PInt 5)" by simp
  have h2: "\<not> is_dict (PInt 5)" by simp
  have h3: "\<not> is_namespace (PInt 5)" by simp
  have h4: "[] \<notin> set [''@cfg.yaml'', ''--mode'', ''test'']" by simp
  have h5: "parse_config_files demo_env demo_parser
        (filter (is_config_file_arg demo_parser) [''@cfg.yaml'', ''--mode'', ''test''])
       = (Inr (), demo_parser\<lparr>config_files_data := [(PStr ''mode'', PStr ''eval'')]\<rparr>)"
    by (simp add: world_defs code_defs)
  note t = invalid_overrides_type
    [of "PInt 5" demo_env demo_parser "Some [''@cfg.yaml'', ''--mode'', ''test'']",
     unfolded initial_args_Some, OF h1 h2 h3 h4 h5]
  show ?thesis
    using t h1 h2 h3 h4 h5 by blast
qed

section \<open>C7: the singleton\<close>


section \<open>C8: the cache after an error\<close>

lemma ArgumentParser_parse_args_frame:
  "same_but_config s (snd (ArgumentParser_parse_args env s arg_strings namespace_opt))"
  using read_args_frame(1) [of s "recursion_limit env" env arg_strings "[]"]
  by (auto simp: ArgumentParser_parse_args_def read_args_from_files_def Let_def
           split: prod.splits sum.splits)

lemma parse_args_error_frame:
  assumes "fst (parse_args env s args_opt overrides) = Inl e"
  shows "same_but_config s (snd (parse_args env s args_opt overrides))"
proof -
  define arg_list where "arg_list = initial_args env s args_opt"
  define config_files_args where "config_files_args = filter (is_config_file_arg s) arg_list"
  define other_args where "other_args = filter (\<lambda>arg. \<not> is_config_file_arg s arg) arg_list"
  obtain r1 s1 where pc: "parse_config_files env s config_files_args = (r1, s1)"
    by (cases "parse_config_files env s config_files_args")
  obtain r2 s2 where pd: "process_default_namespace s1 overrides = (r2, s2)"
    by (cases "process_default_namespace s1 overrides")
  have f1: "same_but_config s s1"
    using parse_config_files_frame [of s env config_files_args] pc by simp
  have f2: "same_but_config s1 s2"
    using process_default_namespace_frame [of s1 overrides] pd by simp
  have f12: "same_but_config s s2"
    using f1 f2 by (rule same_but_config_trans)
  have f3: "same_but_config s s3"
    if "ArgumentParser_parse_args env s2 other_args ns = (r3, s3)" for ns r3 s3
    using same_but_config_trans [OF f12 ArgumentParser_parse_args_frame [of s2 env other_args ns]]
      that by simp
  show ?thesis
    using assms pc pd f1 f12
    by (auto simp: parse_args_def Let_def arg_list_def [symmetric]
          config_files_args_def [symmetric] other_args_def [symmetric] same_but_config_refl
          split: if_splits sum.splits prod.splits dest: f3)
qed

text \<open>
  C8: when \<^verbatim>\<open>parse_args\<close> raises, the cached result \<^verbatim>\<open>self.args\<close> is what it was before
  the call; if a namespace was cached, a lazy read after the failed call looks the name up
  in that namespace and parses nothing.
\<close>

theorem cache_untouched_on_error:
  assumes "fst (parse_args env s args_opt overrides) = Inl e"
  shows "args (snd (parse_args env s args_opt overrides)) = args s
         \<and> (args s = Some ns \<longrightarrow>
              getattr env (snd (parse_args env s args_opt overrides)) name =
                ((case map_of ns name of None \<Rightarrow> Inl KeyError | Some v \<Rightarrow> Inr v),
                 snd (parse_args env s args_opt overrides)))"
  using parse_args_error_frame [OF assms]
  by (auto simp: same_but_config_def getattr_def split: option.splits)

text \<open>C8 at a resolver that has cached \<^verbatim>\<open>mode = 'test'\<close> and is then called with a marker
  token naming a missing file.\<close>

theorem cache_untouched_on_error_witness:
  "fst (parse_args demo_env demo_parser (Some [''--mode'', ''test'']) PNone)
     = Inr [(''mode'', PStr ''test'')]
   \<and> args (snd (parse_args demo_env demo_parser (Some [''--mode'', ''test'']) PNone))
     = Some [(''mode'', PStr ''test'')]
   \<and> fst (parse_args demo_env
            (snd (parse_args demo_env demo_parser (Some [''--mode'', ''test'']) PNone))
            (Some [''@nope'']) PNone) = Inl FileNotFoundError
   \<and> args (snd (parse_args demo_env
            (snd (parse_args demo_env demo_parser (Some [''--mode'', ''test'']) PNone))
            (Some [''@nope'']) PNone)) = Some [(''mode'', PStr ''test'')]
   \<and> fst (getattr demo_env
            (snd (parse_args demo_env
               (snd (parse_args demo_env demo_parser (Some [''--mode'', ''test'']) PNone))
               (Some [''@nope'']) PNone)) ''mode'') = Inr (PStr ''test'')"
proof -
  define cached where
    "cached = snd (parse_args demo_env demo_parser (Some [''--mode'', ''test'']) PNone)"
  have h0: "fst (parse_args demo_env demo_parser (Some [''--mode'', ''test'']) PNone)
     = Inr [(''mode'', PStr ''test'')]"
    by (simp add: world_defs code_defs)
  have h1: "args cached = Some [(''mode'', PStr ''test'')]"
    by (simp add: cached_def world_defs code_defs)
  have h2: "fst (parse_args demo_env cached (Some [''@nope'']) PNone) = Inl FileNotFoundError"
    by (simp add: cached_def world_defs code_defs)
  note t = cache_untouched_on_error [OF h2, of "[(''mode'', PStr ''test'')]" "''mode''"]
  have "args (snd (parse_args demo_env cached (Some [''@nope'']) PNone))
          = Some [(''mode'', PStr ''test'')]"
    using t h1 by simp
  moreover have "fst (getattr demo_env (snd (parse_args demo_env cached (Some [''@nope'']) PNone))
          ''mode'') = Inr (PStr ''test'')"
    using t h1 by simp
  ultimately show ?thesis
    using h0 h1 h2 by (simp add: cached_def)
qed

section \<open>C9: an empty token\<close>

text \<open>
  C9: an explicit token list that contains the empty string makes \<^verbatim>\<open>parse_args\<close> raise
  \<open>IndexError\<close> with the object untouched, whereas \<^verbatim>\<open>_read_args_from_files\<close> passes an
  empty token through.
\<close>

theorem empty_token_index_error:
  "[] \<in> set arg_list \<Longrightarrow>
     parse_args env s (Some arg_list) overrides = (Inl IndexError, s)
     \<and> read_args_from_files n env s [[]] = (Inr [[]], s)"
  by (simp add: parse_args_def Let_def initial_args_def read_args_from_files_def)

text \<open>C9 at the tokens \<^verbatim>\<open>--mode\<close> and the empty string.\<close>

theorem empty_token_index_error_witness:
  "[] \<in> set [''--mode'', '''']
   \<and> parse_args demo_env demo_parser (Some [''--mode'', '''']) PNone = (Inl IndexError, demo_parser)
   \<and> read_args_from_files 7 demo_env demo_parser [''''] = (Inr [''''], demo_parser)"
proof -
  have h: "[] \<in> set [''--mode'', '''']" by simp
  show ?thesis
    using empty_token_index_error [OF h, of demo_env demo_parser PNone 7] h by blast
qed

section \<open>C10: falsy overrides\<close>

text \<open>
  C10: for falsy overrides of any type the first statement of
  \<^verbatim>\<open>process_default_namespace\<close> raises nothing and leaves the object as it is, and
  \<^verbatim>\<open>parse_args\<close> does exactly what it does with the overrides omitted (\<open>None\<close>).
\<close>

theorem falsy_overrides_ignored:
  "\<not> truthy overrides \<Longrightarrow>
     update_from_overrides s overrides = (None, s)
     \<and> process_default_namespace s overrides = process_default_namespace s PNone
     \<and> parse_args env s args_opt overrides = parse_args env s args_opt PNone"
proof -
  assume falsy: "\<not> truthy overrides"
  have u: "update_from_overrides s' overrides = (None, s')" for s'
    using falsy by (simp add: update_from_overrides_def)
  have u0: "update_from_overrides s' PNone = (None, s')" for s'
    by (simp add: update_from_overrides_def)
  have pd: "process_default_namespace s' overrides = process_default_namespace s' PNone" for s'
    by (simp only: process_default_namespace_def u u0)
  have "parse_args env s args_opt overrides = parse_args env s args_opt PNone"
    by (simp only: parse_args_def pd)
  with u pd show ?thesis by simp
qed

text \<open>C10 at the empty dict, the empty list, the empty string and \<open>0\<close>.\<close>

theorem falsy_overrides_ignored_witness:
  "\<not> truthy (PDict []) \<and> \<not> truthy (PList []) \<and> \<not> truthy (PStr []) \<and> \<not> truthy (PInt 0)
   \<and> \<not> truthy PNone
   \<and> update_from_overrides demo_parser (PDict []) = (None, demo_parser)
   \<and> update_from_overrides demo_parser (PList []) = (None, demo_parser)
   \<and> update_from_overrides demo_parser (PStr []) = (None, demo_parser)
   \<and> update_from_overrides demo_parser (PInt 0) = (None, demo_parser)
   \<and> parse_args demo_env demo_parser (Some [''@cfg.yaml'']) (PDict [])
       = parse_args demo_env demo_parser (Some [''@cfg.yaml'']) PNone
   \<and> parse_args demo_env demo_parser (Some [''@cfg.yaml'']) (PList [])
       = parse_args demo_env demo_parser (Some [''@cfg.yaml'']) PNone
   \<and> parse_args demo_env demo_parser (Some [''@cfg.yaml'']) (PStr [])
       = parse_args demo_env demo_parser (Some [''@cfg.yaml'']) PNone
   \<and> parse_args demo_env demo_parser (Some [''@cfg.yaml'']) (PInt 0)
       = parse_args demo_env demo_parser (Some [''@cfg.yaml'']) PNone
   \<and> fst (parse_args demo_env demo_parser (Some [''@cfg.yaml'']) PNone)
       = Inr [(''mode'', PStr ''eval'')]"
proof -
  have h1: "\<not> truthy (PDict [])" by simp
  have h2: "\<not> truthy (PList [])" by simp
  have h3: "\<not> truthy (PStr [])" by simp
  have h4: "\<not> truthy (PInt 0)" by simp
  have h5: "\<not> truthy PNone" by simp
  have r: "fst (parse_args demo_env demo_parser (Some [''@cfg.yaml'']) PNone)
       = Inr [(''mode'', PStr ''eval'')]"
    by (simp add: world_defs code_defs)
  show ?thesis
    using falsy_overrides_ignored [OF h1, of demo_parser demo_env "Some [''@cfg.yaml'']"]
      falsy_overrides_ignored [OF h2, of demo_parser demo_env "Some [''@cfg.yaml'']"]
      falsy_overrides_ignored [OF h3, of demo_parser demo_env "Some [''@cfg.yaml'']"]
      falsy_overrides_ignored [OF h4, of demo_parser demo_env "Some [''@cfg.yaml'']"]
      h1 h2 h3 h4 h5 r
    by blast
qed

end
